theory Spec2Isabelle
  imports Main
begin

section \<open>Go values as the library observes them\<close>

text \<open>
  The package goresult is generic Go code. It looks at the values it is given in a few
  ways only: it compares an \<^verbatim>\<open>error\<close> interface with \<^verbatim>\<open>nil\<close>, it calls
  \<^verbatim>\<open>Error()\<close> on an error, it type-switches an \<^verbatim>\<open>interface{}\<close> on
  \<^verbatim>\<open>error\<close>, it formats an \<^verbatim>\<open>interface{}\<close> with \<^verbatim>\<open>%v\<close>, it asks
  \<^verbatim>\<open>reflect.TypeOf\<close> for a type name, and it takes the zero value of its type
  parameter. The definitions of this section model exactly these observations.
\<close>

subsection \<open>Errors\<close>

text \<open>
  A non-nil value of the interface type \<^verbatim>\<open>error\<close>. \<open>ErrorString s\<close> is the
  \<^verbatim>\<open>*errors.errorString\<close> that \<^verbatim>\<open>errors.New\<close> and \<^verbatim>\<open>fmt.Errorf\<close>
  (without \<^verbatim>\<open>%w\<close>) build; \<open>NativeError ty s\<close> is a value of any other
  dynamic type \<open>ty\<close> implementing \<^verbatim>\<open>error\<close>, whose \<^verbatim>\<open>Error()\<close> method
  returns \<open>s\<close>; \<open>NilPointerError ty\<close> is a nil pointer of a pointer type \<open>ty\<close> whose
  \<^verbatim>\<open>Error()\<close> method reads through its receiver, such as
  \<^verbatim>\<open>(*os.PathError)(nil)\<close>. Stored in an interface such a pointer is not the nil
  interface: it has a dynamic type.
  Equality of the model is deep equality, the comparison made by the package's tests
  (\<^verbatim>\<open>assert.Equal\<close>).
\<close>

datatype go_error = ErrorString string | NativeError string string | NilPointerError string

fun error_type_name :: "go_error \<Rightarrow> string" where
  "error_type_name (ErrorString s) = ''*errors.errorString''"
| "error_type_name (NativeError ty s) = ty"
| "error_type_name (NilPointerError ty) = ty"

text \<open>A variable of type \<^verbatim>\<open>error\<close>: \<open>None\<close> is the nil interface.\<close>

type_synonym error = "go_error option"

abbreviation nil :: error where
  "nil \<equiv> None"

text \<open>\<^verbatim>\<open>errors.New(s)\<close> returns a pointer to a new struct, never nil.\<close>

definition errors_New :: "string \<Rightarrow> go_error" where
  "errors_New s = ErrorString s"

subsection \<open>The empty interface\<close>

text \<open>
  A value of type \<^verbatim>\<open>interface{}\<close>: the nil interface, a value whose dynamic type
  implements \<^verbatim>\<open>error\<close>, a string, an int, a bool, or a value of any other dynamic
  type, given by the name of that type and its default (\<^verbatim>\<open>%v\<close>) text.
\<close>

datatype any_value =
    NilAny
  | ErrorAny go_error
  | StringAny string
  | IntAny int
  | BoolAny bool
  | OtherAny string string

text \<open>
  \<^verbatim>\<open>reflect.TypeOf(i).String()\<close>, in two steps. \<^verbatim>\<open>reflect.TypeOf\<close> of the nil
  interface is the nil \<^verbatim>\<open>reflect.Type\<close>, here \<open>None\<close>.
\<close>

fun reflect_TypeOf :: "any_value \<Rightarrow> string option" where
  "reflect_TypeOf NilAny = None"
| "reflect_TypeOf (ErrorAny e) = Some (error_type_name e)"
| "reflect_TypeOf (StringAny s) = Some ''string''"
| "reflect_TypeOf (IntAny i) = Some ''int''"
| "reflect_TypeOf (BoolAny b) = Some ''bool''"
| "reflect_TypeOf (OtherAny ty txt) = Some ty"

subsection \<open>Panics\<close>

text \<open>
  A call either returns a value or panics with a value of type \<^verbatim>\<open>interface{}\<close>.
  \<open>memoryError\<close> is the value the Go runtime panics with when a method is called
  through a nil interface, or when a method reads through a nil pointer receiver.
\<close>

datatype 'a outcome = Returns 'a | Panics any_value

definition memoryError :: go_error where
  "memoryError = NativeError ''runtime.errorString''
     ''runtime error: invalid memory address or nil pointer dereference''"

text \<open>
  A Go function value called with the client's state \<open>'s\<close>: it returns or panics, and
  leaves a state behind in both cases.
\<close>

type_synonym ('a, 's) go = "'s \<Rightarrow> 'a outcome \<times> 's"

text \<open>
  The method \<^verbatim>\<open>Error() string\<close> of the interface, called dynamically. On a nil
  pointer receiver the method dereferences nil and the runtime panics.
\<close>

fun error_Error :: "go_error \<Rightarrow> string outcome" where
  "error_Error (ErrorString s) = Returns s"
| "error_Error (NativeError ty s) = Returns s"
| "error_Error (NilPointerError ty) = Panics (ErrorAny memoryError)"

subsection \<open>Formatting\<close>

text \<open>Decimal digits, for \<^verbatim>\<open>%v\<close> of an int.\<close>

definition digit :: "nat \<Rightarrow> char" where
  "digit n = ''0123456789'' ! n"

fun show_nat :: "nat \<Rightarrow> string" where
  "show_nat n = (if n < 10 then [digit n] else show_nat (n div 10) @ [digit (n mod 10)])"

declare show_nat.simps [simp del]

definition show_int :: "int \<Rightarrow> string" where
  "show_int i = (if i < 0 then CHR ''-'' # show_nat (nat (- i)) else show_nat (nat i))"

text \<open>
  \<^verbatim>\<open>fmt.Sprintf("%v", x)\<close>: an error prints its \<^verbatim>\<open>Error()\<close>. The package
  fmt recovers from a panic of \<^verbatim>\<open>Error()\<close> on a nil pointer receiver and prints
  \<^verbatim>\<open><nil>\<close>.
\<close>

fun fmt_Sprintf_v :: "any_value \<Rightarrow> string" where
  "fmt_Sprintf_v NilAny = ''<nil>''"
| "fmt_Sprintf_v (ErrorAny e) = (case error_Error e of Returns s \<Rightarrow> s | Panics p \<Rightarrow> ''<nil>'')"
| "fmt_Sprintf_v (StringAny s) = s"
| "fmt_Sprintf_v (IntAny i) = show_int i"
| "fmt_Sprintf_v (BoolAny b) = (if b then ''true'' else ''false'')"
| "fmt_Sprintf_v (OtherAny ty txt) = txt"

text \<open>
  \<^verbatim>\<open>fmt.Errorf("%v", x)\<close> and \<^verbatim>\<open>fmt.Errorf("%s: %s", a, b)\<close> for strings
  \<open>a\<close> and \<open>b\<close>: the formatted text in a new \<^verbatim>\<open>*errors.errorString\<close>.
\<close>

definition fmt_Errorf_v :: "any_value \<Rightarrow> go_error" where
  "fmt_Errorf_v x = errors_New (fmt_Sprintf_v x)"

definition fmt_Errorf_s_s :: "string \<Rightarrow> string \<Rightarrow> go_error" where
  "fmt_Errorf_s_s a b = errors_New (a @ '': '' @ b)"

subsection \<open>Type parameters\<close>

text \<open>
  What the generic code uses of its type parameter \<^verbatim>\<open>T\<close>: the zero value, and
  the conversion of a \<^verbatim>\<open>T\<close> to \<^verbatim>\<open>interface{}\<close> that passing it to
  \<^verbatim>\<open>reflect.TypeOf\<close> performs. For an interface type \<^verbatim>\<open>T\<close> the conversion
  keeps a nil interface nil.
\<close>

record 'a go_type =
  zero_value :: 'a
  to_any :: "'a \<Rightarrow> any_value"

definition T_int :: "int go_type" where
  "T_int = \<lparr>zero_value = 0, to_any = IntAny\<rparr>"

definition T_string :: "string go_type" where
  "T_string = \<lparr>zero_value = [], to_any = StringAny\<rparr>"

definition T_bool :: "bool go_type" where
  "T_bool = \<lparr>zero_value = False, to_any = BoolAny\<rparr>"

definition T_any :: "any_value go_type" where
  "T_any = \<lparr>zero_value = NilAny, to_any = (\<lambda>v. v)\<rparr>"

definition T_error :: "error go_type" where
  "T_error = \<lparr>zero_value = nil,
     to_any = (\<lambda>v. case v of None \<Rightarrow> NilAny | Some e \<Rightarrow> ErrorAny e)\<rparr>"


section \<open>The failure normalizer\<close>

text \<open>
  \<^verbatim>\<open>
  func covertError(err interface{}) error {
      switch err.(type) {
      case error:  return err.(error)
      default:     return fmt.Errorf("%v", err)
      }
  }
  \<close>
  The nil interface has no dynamic type, so it takes the default branch. The result has
  the type \<^verbatim>\<open>error\<close>, which has a nil value.
\<close>

fun covertError :: "any_value \<Rightarrow> error" where
  "covertError (ErrorAny e) = Some e"
| "covertError err = Some (fmt_Errorf_v err)"

section \<open>The helpers of the unwrapping methods\<close>

text \<open>
  \<^verbatim>\<open>
  func unwrapErrorFailed[E error](msg string, err E) {
      panic(fmt.Errorf("%s: %s", msg, err.Error()))
  }
  func unwrapValueFailed[T any](msg string, value T) {
      types := reflect.TypeOf(value).String()
      panic(fmt.Errorf("%s: %s", msg, types))
  }
  \<close>
  Both files that declare a Result declare these two helpers, with the same text.
  \<^verbatim>\<open>err.Error()\<close> through a nil interface and \<^verbatim>\<open>String()\<close> on the nil
  \<^verbatim>\<open>reflect.Type\<close> are nil dereferences: the runtime panics before
  \<^verbatim>\<open>fmt.Errorf\<close> is reached. The arguments of \<^verbatim>\<open>fmt.Errorf\<close> are evaluated
  before it is called, so a panic of \<^verbatim>\<open>err.Error()\<close> itself leaves the helper as
  it is, without \<open>msg\<close>.
\<close>

definition unwrapErrorFailed :: "string \<Rightarrow> error \<Rightarrow> unit outcome" where
  "unwrapErrorFailed msg err =
     (case err of
        None \<Rightarrow> Panics (ErrorAny memoryError)
      | Some e \<Rightarrow>
          (case error_Error e of
             Panics p \<Rightarrow> Panics p
           | Returns text \<Rightarrow> Panics (ErrorAny (fmt_Errorf_s_s msg text))))"

definition unwrapValueFailed :: "'a go_type \<Rightarrow> string \<Rightarrow> 'a \<Rightarrow> unit outcome" where
  "unwrapValueFailed T msg v =
     (case reflect_TypeOf (to_any T v) of
        None \<Rightarrow> Panics (ErrorAny memoryError)
      | Some types \<Rightarrow> Panics (ErrorAny (fmt_Errorf_s_s msg types)))"

section \<open>The struct-based containers (result.go, option.go)\<close>

text \<open>
  \<^verbatim>\<open>
  type Result[T any] struct { Value T; Error error }
  type Option[T any] struct { Value T; none bool }
  \<close>
  The constructors return pointers. No method assigns to a field, and no method reads
  a field of its receiver after it has called a callback, so a container is modelled by
  the values of its fields, and a method that returns its receiver returns that value.
  A callback acts on the client's state \<open>'s\<close>.
\<close>

record 'a Result =
  Result_Value :: 'a
  Result_Error :: error

record 'a Option =
  Option_Value :: 'a
  Option_none :: bool

subsection \<open>Constructors\<close>

definition Ok_Result :: "'a \<Rightarrow> 'a Result" where
  "Ok_Result v = \<lparr>Result_Value = v, Result_Error = nil\<rparr>"

text \<open>\<^verbatim>\<open>&Result[T]{Error: covertError(err)}\<close>: the field Value keeps the zero value.\<close>

definition Error_Result :: "'a go_type \<Rightarrow> any_value \<Rightarrow> 'a Result" where
  "Error_Result T err = \<lparr>Result_Value = zero_value T, Result_Error = covertError err\<rparr>"

definition Some_Option :: "'a \<Rightarrow> 'a Option" where
  "Some_Option v = \<lparr>Option_Value = v, Option_none = False\<rparr>"

definition None_Option :: "'a go_type \<Rightarrow> 'a Option" where
  "None_Option T = \<lparr>Option_Value = zero_value T, Option_none = True\<rparr>"

subsection \<open>Methods of Result\<close>

definition Result_IsOk :: "'a Result \<Rightarrow> bool" where
  "Result_IsOk r = (Result_Error r = nil)"

definition Result_IsError :: "'a Result \<Rightarrow> bool" where
  "Result_IsError r = (Result_Error r \<noteq> nil)"

text \<open>
  \<^verbatim>\<open>
  func (r *Result[T]) Except(msg string) T {
      if r.IsError() { unwrapErrorFailed(msg, r.Error) }
      return r.Value
  }
  func (r *Result[T]) ExceptError(msg string) error {
      if r.IsOk() { unwrapValueFailed(msg, r.Value) }
      return r.Error
  }
  \<close>
\<close>

definition Result_Except :: "'a Result \<Rightarrow> string \<Rightarrow> 'a outcome" where
  "Result_Except r msg =
     (if Result_IsError r then
        (case unwrapErrorFailed msg (Result_Error r) of
           Panics p \<Rightarrow> Panics p
         | Returns u \<Rightarrow> Returns (Result_Value r))
      else Returns (Result_Value r))"

definition Result_ExceptError :: "'a go_type \<Rightarrow> 'a Result \<Rightarrow> string \<Rightarrow> error outcome" where
  "Result_ExceptError T r msg =
     (if Result_IsOk r then
        (case unwrapValueFailed T msg (Result_Value r) of
           Panics p \<Rightarrow> Panics p
         | Returns u \<Rightarrow> Returns (Result_Error r))
      else Returns (Result_Error r))"

text \<open>
  \<^verbatim>\<open>
  func (r *Result[T]) Inspect(f func(T)) *Result[T] {
      if r.IsOk() { f(r.Value) }
      return r
  }
  \<close>
  and the same for InspectError, with IsError and the field Error. A panic of the
  callback leaves the method.
\<close>

definition Result_Inspect :: "'a Result \<Rightarrow> ('a \<Rightarrow> (unit, 's) go) \<Rightarrow> ('a Result, 's) go" where
  "Result_Inspect r f s =
     (if Result_IsOk r then
        (case f (Result_Value r) s of
           (Panics p, s') \<Rightarrow> (Panics p, s')
         | (Returns u, s') \<Rightarrow> (Returns r, s'))
      else (Returns r, s))"

definition Result_InspectError :: "'a Result \<Rightarrow> (error \<Rightarrow> (unit, 's) go) \<Rightarrow> ('a Result, 's) go" where
  "Result_InspectError r f s =
     (if Result_IsError r then
        (case f (Result_Error r) s of
           (Panics p, s') \<Rightarrow> (Panics p, s')
         | (Returns u, s') \<Rightarrow> (Returns r, s'))
      else (Returns r, s))"

definition Result_Unwrap :: "'a Result \<Rightarrow> 'a outcome" where
  "Result_Unwrap r = Result_Except r ''called `Result.Unwrap()` on an `Error` value''"

definition Result_UnwrapError :: "'a go_type \<Rightarrow> 'a Result \<Rightarrow> error outcome" where
  "Result_UnwrapError T r =
     Result_ExceptError T r ''called `Result.UnwrapError()` on an `Value` value''"

definition Result_UnwrapOr :: "'a Result \<Rightarrow> 'a \<Rightarrow> 'a" where
  "Result_UnwrapOr r defaults = (if Result_IsOk r then Result_Value r else defaults)"

text \<open>\<^verbatim>\<open>Result[T]{}.Value\<close> is the zero value of \<^verbatim>\<open>T\<close>.\<close>

definition Result_UnwrapOrDefault :: "'a go_type \<Rightarrow> 'a Result \<Rightarrow> 'a" where
  "Result_UnwrapOrDefault T r = (if Result_IsOk r then Result_Value r else zero_value T)"

definition Result_UnwrapOrElse :: "'a Result \<Rightarrow> ('a, 's) go \<Rightarrow> ('a, 's) go" where
  "Result_UnwrapOrElse r f s = (if Result_IsOk r then (Returns (Result_Value r), s) else f s)"

definition Result_Option :: "'a go_type \<Rightarrow> 'a Result \<Rightarrow> 'a Option" where
  "Result_Option T r = (if Result_IsOk r then Some_Option (Result_Value r) else None_Option T)"

subsection \<open>Methods of Option\<close>

definition Option_IsSome :: "'a Option \<Rightarrow> bool" where
  "Option_IsSome opt = (\<not> Option_none opt)"

definition Option_IsNone :: "'a Option \<Rightarrow> bool" where
  "Option_IsNone opt = Option_none opt"

definition Option_Unwrap :: "'a Option \<Rightarrow> 'a outcome" where
  "Option_Unwrap opt =
     (if Option_IsNone opt then Panics (StringAny ''called `Option.Unwrap()` on a `nil` value'')
      else Returns (Option_Value opt))"

definition Option_UnwrapOr :: "'a Option \<Rightarrow> 'a \<Rightarrow> 'a" where
  "Option_UnwrapOr opt defaults = (if Option_IsNone opt then defaults else Option_Value opt)"

definition Option_UnwrapOrElse :: "'a Option \<Rightarrow> ('a, 's) go \<Rightarrow> ('a, 's) go" where
  "Option_UnwrapOrElse opt f s =
     (if Option_IsNone opt then f s else (Returns (Option_Value opt), s))"

definition Option_UnwrapOrDefault :: "'a go_type \<Rightarrow> 'a Option \<Rightarrow> 'a" where
  "Option_UnwrapOrDefault T opt =
     (if Option_IsNone opt then Option_Value (None_Option T) else Option_Value opt)"

definition Option_Inspect :: "'a Option \<Rightarrow> ('a \<Rightarrow> (unit, 's) go) \<Rightarrow> ('a Option, 's) go" where
  "Option_Inspect opt f s =
     (if Option_IsSome opt then
        (case f (Option_Value opt) s of
           (Panics p, s') \<Rightarrow> (Panics p, s')
         | (Returns u, s') \<Rightarrow> (Returns opt, s'))
      else (Returns opt, s))"

definition Option_OkOr :: "'a go_type \<Rightarrow> 'a Option \<Rightarrow> any_value \<Rightarrow> 'a Result" where
  "Option_OkOr T opt err =
     (if Option_IsSome opt then Ok_Result (Option_Value opt) else Error_Result T err)"

text \<open>
  \<^verbatim>\<open>Error[T](f())\<close>: the error that \<open>f\<close> returns, nil included, is converted to
  \<^verbatim>\<open>interface{}\<close> and normalized.
\<close>

definition Option_OkOrElse :: "'a go_type \<Rightarrow> 'a Option \<Rightarrow> (error, 's) go \<Rightarrow> ('a Result, 's) go" where
  "Option_OkOrElse T opt f s =
     (if Option_IsSome opt then (Returns (Ok_Result (Option_Value opt)), s)
      else
        (case f s of
           (Panics p, s') \<Rightarrow> (Panics p, s')
         | (Returns e, s') \<Rightarrow> (Returns (Error_Result T (to_any T_error e)), s')))"

text \<open>
  \<^verbatim>\<open>
  func (opt *Option[T]) Filter(predicate func(value T) bool) *Option[T] {
      if opt.IsSome() && predicate(opt.Value) { return opt }
      return None[T]()
  }
  \<close>
  \<^verbatim>\<open>&&\<close> evaluates its right operand only when the left one is true.
\<close>

definition Option_Filter :: "'a go_type \<Rightarrow> 'a Option \<Rightarrow> ('a \<Rightarrow> (bool, 's) go) \<Rightarrow> ('a Option, 's) go" where
  "Option_Filter T opt predicate s =
     (if Option_IsSome opt then
        (case predicate (Option_Value opt) s of
           (Panics p, s') \<Rightarrow> (Panics p, s')
         | (Returns b, s') \<Rightarrow> (if b then (Returns opt, s') else (Returns (None_Option T), s')))
      else (Returns (None_Option T), s))"


section \<open>The interface-based containers\<close>

text \<open>
  The second pair of files declares \<^verbatim>\<open>Result[T]\<close> and \<^verbatim>\<open>Option[T]\<close> as
  interfaces, implemented by pointers to the unexported structs
  \<^verbatim>\<open>
  type result[T any] struct { value T; error error }
  type option[T any] struct { value T; none bool }
  \<close>
  The fields are read through the methods Value and Error.
\<close>

record 'a result =
  result_value :: 'a
  result_error :: error

record 'a option_ =
  option_value :: 'a
  option_none :: bool

subsection \<open>Constructors\<close>

definition Ok_result :: "'a \<Rightarrow> 'a result" where
  "Ok_result v = \<lparr>result_value = v, result_error = nil\<rparr>"

definition Error_result :: "'a go_type \<Rightarrow> any_value \<Rightarrow> 'a result" where
  "Error_result T err = \<lparr>result_value = zero_value T, result_error = covertError err\<rparr>"

definition Some_option :: "'a \<Rightarrow> 'a option_" where
  "Some_option v = \<lparr>option_value = v, option_none = False\<rparr>"

definition None_option :: "'a go_type \<Rightarrow> 'a option_" where
  "None_option T = \<lparr>option_value = zero_value T, option_none = True\<rparr>"

subsection \<open>Methods of result\<close>

definition result_Value :: "'a result \<Rightarrow> 'a" where
  "result_Value r = result_value r"

definition result_Error :: "'a result \<Rightarrow> error" where
  "result_Error r = result_error r"

definition result_IsOk :: "'a result \<Rightarrow> bool" where
  "result_IsOk r = (result_error r = nil)"

definition result_IsError :: "'a result \<Rightarrow> bool" where
  "result_IsError r = (result_error r \<noteq> nil)"

definition result_Except :: "'a result \<Rightarrow> string \<Rightarrow> 'a outcome" where
  "result_Except r msg =
     (if result_IsError r then
        (case unwrapErrorFailed msg (result_error r) of
           Panics p \<Rightarrow> Panics p
         | Returns u \<Rightarrow> Returns (result_value r))
      else Returns (result_value r))"

definition result_ExceptError :: "'a go_type \<Rightarrow> 'a result \<Rightarrow> string \<Rightarrow> error outcome" where
  "result_ExceptError T r msg =
     (if result_IsOk r then
        (case unwrapValueFailed T msg (result_value r) of
           Panics p \<Rightarrow> Panics p
         | Returns u \<Rightarrow> Returns (result_error r))
      else Returns (result_error r))"

definition result_Inspect :: "'a result \<Rightarrow> ('a \<Rightarrow> (unit, 's) go) \<Rightarrow> ('a result, 's) go" where
  "result_Inspect r f s =
     (if result_IsOk r then
        (case f (result_value r) s of
           (Panics p, s') \<Rightarrow> (Panics p, s')
         | (Returns u, s') \<Rightarrow> (Returns r, s'))
      else (Returns r, s))"

definition result_InspectError :: "'a result \<Rightarrow> (error \<Rightarrow> (unit, 's) go) \<Rightarrow> ('a result, 's) go" where
  "result_InspectError r f s =
     (if result_IsError r then
        (case f (result_error r) s of
           (Panics p, s') \<Rightarrow> (Panics p, s')
         | (Returns u, s') \<Rightarrow> (Returns r, s'))
      else (Returns r, s))"

definition result_Unwrap :: "'a result \<Rightarrow> 'a outcome" where
  "result_Unwrap r = result_Except r ''called `result.Unwrap()` on an `error` value''"

definition result_UnwrapError :: "'a go_type \<Rightarrow> 'a result \<Rightarrow> error outcome" where
  "result_UnwrapError T r =
     result_ExceptError T r ''called `result.UnwrapError()` on an `value` value''"

definition result_UnwrapOr :: "'a result \<Rightarrow> 'a \<Rightarrow> 'a" where
  "result_UnwrapOr r defaults = (if result_IsOk r then result_value r else defaults)"

definition result_UnwrapOrDefault :: "'a go_type \<Rightarrow> 'a result \<Rightarrow> 'a" where
  "result_UnwrapOrDefault T r = (if result_IsOk r then result_value r else zero_value T)"

definition result_UnwrapOrElse :: "'a result \<Rightarrow> ('a, 's) go \<Rightarrow> ('a, 's) go" where
  "result_UnwrapOrElse r f s = (if result_IsOk r then (Returns (result_value r), s) else f s)"

definition result_Option :: "'a go_type \<Rightarrow> 'a result \<Rightarrow> 'a option_" where
  "result_Option T r = (if result_IsOk r then Some_option (result_value r) else None_option T)"

subsection \<open>Methods of option\<close>

definition option_Value :: "'a option_ \<Rightarrow> 'a" where
  "option_Value opt = option_value opt"

definition option_IsSome :: "'a option_ \<Rightarrow> bool" where
  "option_IsSome opt = (\<not> option_none opt)"

definition option_IsNone :: "'a option_ \<Rightarrow> bool" where
  "option_IsNone opt = option_none opt"

definition option_Unwrap :: "'a option_ \<Rightarrow> 'a outcome" where
  "option_Unwrap opt =
     (if option_IsNone opt then Panics (StringAny ''called `option.Unwrap()` on a `nil` value'')
      else Returns (option_value opt))"

definition option_UnwrapOr :: "'a option_ \<Rightarrow> 'a \<Rightarrow> 'a" where
  "option_UnwrapOr opt defaults = (if option_IsNone opt then defaults else option_value opt)"

definition option_UnwrapOrElse :: "'a option_ \<Rightarrow> ('a, 's) go \<Rightarrow> ('a, 's) go" where
  "option_UnwrapOrElse opt f s =
     (if option_IsNone opt then f s else (Returns (option_value opt), s))"

definition option_UnwrapOrDefault :: "'a go_type \<Rightarrow> 'a option_ \<Rightarrow> 'a" where
  "option_UnwrapOrDefault T opt =
     (if option_IsNone opt then option_Value (None_option T) else option_value opt)"

definition option_Inspect :: "'a option_ \<Rightarrow> ('a \<Rightarrow> (unit, 's) go) \<Rightarrow> ('a option_, 's) go" where
  "option_Inspect opt f s =
     (if option_IsSome opt then
        (case f (option_value opt) s of
           (Panics p, s') \<Rightarrow> (Panics p, s')
         | (Returns u, s') \<Rightarrow> (Returns opt, s'))
      else (Returns opt, s))"

definition option_OkOr :: "'a go_type \<Rightarrow> 'a option_ \<Rightarrow> any_value \<Rightarrow> 'a result" where
  "option_OkOr T opt err =
     (if option_IsSome opt then Ok_result (option_value opt) else Error_result T err)"

definition option_OkOrElse :: "'a go_type \<Rightarrow> 'a option_ \<Rightarrow> (error, 's) go \<Rightarrow> ('a result, 's) go" where
  "option_OkOrElse T opt f s =
     (if option_IsSome opt then (Returns (Ok_result (option_value opt)), s)
      else
        (case f s of
           (Panics p, s') \<Rightarrow> (Panics p, s')
         | (Returns e, s') \<Rightarrow> (Returns (Error_result T (to_any T_error e)), s')))"

definition option_Filter :: "'a go_type \<Rightarrow> 'a option_ \<Rightarrow> ('a \<Rightarrow> (bool, 's) go) \<Rightarrow> ('a option_, 's) go" where
  "option_Filter T opt predicate s =
     (if option_IsSome opt then
        (case predicate (option_value opt) s of
           (Panics p, s') \<Rightarrow> (Panics p, s')
         | (Returns b, s') \<Rightarrow> (if b then (Returns opt, s') else (Returns (None_option T), s')))
      else (Returns (None_option T), s))"


section \<open>Observing calls and relating the two variants\<close>

text \<open>
  A callback instrumented as a test instruments it: \<open>counting f\<close> behaves as \<open>f\<close> and
  adds one to a call counter kept beside the state; \<open>counting_arg\<close> does the same for a
  callback with an argument; \<open>note_arg\<close> appends the argument it is called with to a log.
\<close>

definition counting :: "('a, 's) go \<Rightarrow> ('a, nat \<times> 's) go" where
  "counting f = (\<lambda>(n, s). case f s of (res, s') \<Rightarrow> (res, (Suc n, s')))"

definition counting_arg :: "('b \<Rightarrow> ('a, 's) go) \<Rightarrow> 'b \<Rightarrow> ('a, nat \<times> 's) go" where
  "counting_arg f v = counting (f v)"

definition note_arg :: "'b \<Rightarrow> (unit, 'b list) go" where
  "note_arg v = (\<lambda>log. (Returns (), log @ [v]))"

text \<open>What a caller that recovers from panics sees of a call: the value returned, if any.\<close>

fun returned :: "'a outcome \<Rightarrow> 'a option" where
  "returned (Returns v) = Some v"
| "returned (Panics p) = None"

text \<open>
  The struct-based container with the same fields as an interface-based one, and the
  same for the results of calls.
\<close>

definition to_result :: "'a Result \<Rightarrow> 'a result" where
  "to_result r = \<lparr>result_value = Result_Value r, result_error = Result_Error r\<rparr>"

definition to_option :: "'a Option \<Rightarrow> 'a option_" where
  "to_option opt = \<lparr>option_value = Option_Value opt, option_none = Option_none opt\<rparr>"

definition call_to_result :: "'a Result outcome \<times> 's \<Rightarrow> 'a result outcome \<times> 's" where
  "call_to_result c = (map_outcome to_result (fst c), snd c)"

definition call_to_option :: "'a Option outcome \<times> 's \<Rightarrow> 'a option_ outcome \<times> 's" where
  "call_to_option c = (map_outcome to_option (fst c), snd c)"


section \<open>Properties\<close>

subsection \<open>The normalizer never returns nil\<close>

lemma covertError_not_nil: "covertError d \<noteq> nil"
  by (cases d) (simp_all add: fmt_Errorf_v_def errors_New_def)

lemma Error_Result_IsError: "Result_IsError (Error_Result T d)"
  by (simp add: Result_IsError_def Error_Result_def covertError_not_nil)

lemma Error_Result_not_IsOk: "\<not> Result_IsOk (Error_Result T d)"
  by (simp add: Result_IsOk_def Error_Result_def covertError_not_nil)

subsection \<open>Construction and observation\<close>

text \<open>
  C1. For every payload type and every value \<open>v\<close>, the Result that \<open>Ok(v)\<close> builds
  (in the interface-based file) answers its four observers as follows: IsOk is true,
  IsError is false, Value is \<open>v\<close>, and Error is nil.
\<close>

theorem Ok_result_observers:
  "result_IsOk (Ok_result v) = True \<and> result_IsError (Ok_result v) = False \<and>
   result_Value (Ok_result v) = v \<and> result_Error (Ok_result v) = nil"
  by (simp add: Ok_result_def result_IsOk_def result_IsError_def result_Value_def
      result_Error_def)

subsection \<open>Conversions between the two containers\<close>

text \<open>
  C2. The conversions keep the state and the value: for every value \<open>v\<close> and descriptor
  \<open>d\<close>, \<open>Ok(v).Option()\<close> is \<open>Some(v)\<close> and \<open>Error[T](d).Option()\<close> is \<open>None[T]()\<close>;
  \<open>Some(v).OkOr(d)\<close> is \<open>Ok(v)\<close> and \<open>None[T]().OkOr(d)\<close> is \<open>Error[T](d)\<close>. Equality
  is equality of the fields, as the tests compare.
\<close>

theorem Option_Result_round_trip:
  "Result_Option T (Ok_Result v) = Some_Option v \<and>
   Result_Option T (Error_Result T d) = None_Option T \<and>
   Option_OkOr T (Some_Option v) d = Ok_Result v \<and>
   Option_OkOr T (None_Option T) d = Error_Result T d"
proof -
  have "Result_Option T (Ok_Result v) = Some_Option v"
    by (simp add: Result_Option_def Result_IsOk_def Ok_Result_def)
  moreover have "Result_Option T (Error_Result T d) = None_Option T"
    by (simp add: Result_Option_def Error_Result_not_IsOk)
  moreover have "Option_OkOr T (Some_Option v) d = Ok_Result v"
    by (simp add: Option_OkOr_def Option_IsSome_def Some_Option_def)
  moreover have "Option_OkOr T (None_Option T) d = Error_Result T d"
    by (simp add: Option_OkOr_def Option_IsSome_def None_Option_def)
  ultimately show ?thesis by simp
qed

subsection \<open>Unwrapping with a message\<close>

lemma Result_state_exclusive: "Result_IsError r = (\<not> Result_IsOk r)"
  by (simp add: Result_IsError_def Result_IsOk_def)

text \<open>
  Except on a descriptor whose \<^verbatim>\<open>Error()\<close> returns: in the success state it
  returns the held value, in the failure state it panics with an error whose text is
  \<open>msg\<close>, a colon and a space, and the description of the descriptor.
\<close>

lemma Except_returning_description:
  "(Result_IsOk r \<longrightarrow> Result_Except r msg = Returns (Result_Value r)) \<and>
   (Result_Error r = Some e \<and> error_Error e = Returns text \<longrightarrow>
      Result_IsError r \<and>
      Result_Except r msg = Panics (ErrorAny (ErrorString (msg @ '': '' @ text))))"
  by (simp add: Result_Except_def Result_IsError_def Result_IsOk_def unwrapErrorFailed_def
      fmt_Errorf_s_s_def errors_New_def)


text \<open>
  ExceptError on a payload that has a dynamic type: in the failure state it returns the
  descriptor, in the success state it panics with \<open>msg\<close>, a colon and a space, and the
  name of the payload's dynamic type.
\<close>

lemma ExceptError_typed_payload:
  "(Result_IsError r \<longrightarrow> Result_ExceptError T r msg = Returns (Result_Error r)) \<and>
   (Result_IsOk r \<and> reflect_TypeOf (to_any T (Result_Value r)) = Some ty \<longrightarrow>
      Result_ExceptError T r msg = Panics (ErrorAny (ErrorString (msg @ '': '' @ ty))))"
  by (simp add: Result_ExceptError_def Result_IsOk_def Result_IsError_def
      unwrapValueFailed_def fmt_Errorf_s_s_def errors_New_def)

text \<open>
  C4. The claim is that \<open>r.ExceptError(msg)\<close> in the success state panics with a message
  made of \<open>msg\<close> and the dynamic type name of the held value, for every held value, a nil
  one included. At \<open>Ok[any](nil)\<close> the held value is the nil interface: it has no dynamic
  type, \<^verbatim>\<open>reflect.TypeOf\<close> returns the nil Type, and the call of \<^verbatim>\<open>String()\<close> on
  it panics with the runtime's nil dereference error, in which \<open>msg\<close> does not occur.
\<close>

theorem ExceptError_nil_interface_payload:
  "Result_IsOk (Ok_Result NilAny) \<and>
   reflect_TypeOf (to_any T_any NilAny) = None \<and>
   Result_ExceptError T_any (Ok_Result NilAny) ''boom'' = Panics (ErrorAny memoryError) \<and>
   error_Error memoryError =
     Returns ''runtime error: invalid memory address or nil pointer dereference''"
  by (simp add: Result_ExceptError_def Result_IsOk_def Ok_Result_def unwrapValueFailed_def
      T_any_def memoryError_def)

subsection \<open>Lazy fallbacks\<close>

text \<open>
  C5. For every Result and every Option, \<open>UnwrapOrElse(f)\<close> in the success or present state
  returns the held value and does not call \<open>f\<close>: the state, and with it the call counter,
  is as before. In the failure or absent state the call is the call of \<open>f\<close>: it returns
  what \<open>f\<close> returns, leaves the state \<open>f\<close> leaves, and the counter has gone up by one.
\<close>

theorem UnwrapOrElse_lazy:
  "(Result_IsOk r \<longrightarrow> Result_UnwrapOrElse r g t = (Returns (Result_Value r), t)) \<and>
   (Result_IsError r \<longrightarrow> Result_UnwrapOrElse r g t = g t) \<and>
   (Option_IsSome opt \<longrightarrow> Option_UnwrapOrElse opt g t = (Returns (Option_Value opt), t)) \<and>
   (Option_IsNone opt \<longrightarrow> Option_UnwrapOrElse opt g t = g t) \<and>
   (Result_IsOk r \<longrightarrow>
      Result_UnwrapOrElse r (counting f) (n, s) = (Returns (Result_Value r), (n, s))) \<and>
   (Result_IsError r \<longrightarrow>
      Result_UnwrapOrElse r (counting f) (n, s) = (fst (f s), (Suc n, snd (f s)))) \<and>
   (Option_IsSome opt \<longrightarrow>
      Option_UnwrapOrElse opt (counting f) (n, s) = (Returns (Option_Value opt), (n, s))) \<and>
   (Option_IsNone opt \<longrightarrow>
      Option_UnwrapOrElse opt (counting f) (n, s) = (fst (f s), (Suc n, snd (f s))))"
  by (simp add: Result_UnwrapOrElse_def Option_UnwrapOrElse_def Result_IsOk_def
      Result_IsError_def Option_IsSome_def Option_IsNone_def counting_def split: prod.split)

theorem UnwrapOrElse_lazy_witness:
  "Result_IsOk (Ok_Result (42::int)) \<and>
   Result_UnwrapOrElse (Ok_Result (42::int)) (counting (\<lambda>s. (Returns 0, s))) (0, ()) =
     (Returns 42, (0, ())) \<and>
   Result_IsError (Error_Result T_int (StringAny ''error'')) \<and>
   Result_UnwrapOrElse (Error_Result T_int (StringAny ''error''))
     (counting (\<lambda>s. (Returns 0, s))) (0, ()) = (Returns 0, (1, ())) \<and>
   Option_IsSome (Some_Option (1::int)) \<and>
   Option_UnwrapOrElse (Some_Option (1::int)) (counting (\<lambda>s. (Returns 0, s))) (0, ()) =
     (Returns 1, (0, ())) \<and>
   Option_IsNone (None_Option T_int) \<and>
   Option_UnwrapOrElse (None_Option T_int) (counting (\<lambda>s. (Returns 0, s))) (0, ()) =
     (Returns 0, (1, ()))"
  using UnwrapOrElse_lazy [where r = "Ok_Result (42::int)" and opt = "Some_Option (1::int)"
      and f = "\<lambda>s. (Returns 0, s)" and n = 0 and s = "()"
      and g = "\<lambda>s. (Returns 0, s)" and t = "()"]
    UnwrapOrElse_lazy [where r = "Error_Result T_int (StringAny ''error'')"
      and opt = "None_Option T_int" and f = "\<lambda>s. (Returns 0, s)" and n = 0 and s = "()"
      and g = "\<lambda>s. (Returns 0, s)" and t = "()"]
  by (simp add: Result_IsOk_def Result_IsError_def Ok_Result_def Error_Result_def
      fmt_Errorf_v_def errors_New_def Option_IsSome_def Option_IsNone_def Some_Option_def
      None_Option_def)

subsection \<open>Filter\<close>

text \<open>
  C6. For every Option \<open>o\<close> and predicate \<open>p\<close>: when \<open>o\<close> is present and \<open>p\<close> returns true
  on its value, \<open>o.Filter(p)\<close> returns \<open>o\<close> itself; when \<open>o\<close> is present and \<open>p\<close> returns
  false, it returns \<open>None\<close>; when \<open>o\<close> is absent it returns \<open>None\<close> and the state is the
  one before the call, whatever \<open>p\<close> would do to it: \<open>p\<close> is not called.
\<close>

theorem Filter_keeps_or_drops:
  "(Option_IsSome opt \<and> predicate (Option_Value opt) s = (Returns True, s') \<longrightarrow>
      Option_Filter T opt predicate s = (Returns opt, s')) \<and>
   (Option_IsSome opt \<and> predicate (Option_Value opt) s = (Returns False, s') \<longrightarrow>
      Option_Filter T opt predicate s = (Returns (None_Option T), s')) \<and>
   (Option_IsNone opt \<longrightarrow>
      Option_Filter T opt predicate s = (Returns (None_Option T), s))"
  by (simp add: Option_Filter_def Option_IsSome_def Option_IsNone_def)

theorem Filter_keeps_or_drops_witness:
  "Option_Filter T_int (Some_Option 5) (counting_arg (\<lambda>x s. (Returns (x = 5), s))) (0, ()) =
     (Returns (Some_Option 5), (1, ())) \<and>
   Option_Filter T_int (Some_Option 5) (counting_arg (\<lambda>x s. (Returns (x = 6), s))) (0, ()) =
     (Returns (None_Option T_int), (1, ())) \<and>
   Option_Filter T_int (None_Option T_int) (counting_arg (\<lambda>x s. (Returns (x = 6), s)))
     (0, ()) = (Returns (None_Option T_int), (0, ()))"
  using Filter_keeps_or_drops [of "Some_Option (5::int)"
      "counting_arg (\<lambda>x s. (Returns (x = 5), s))" "(0, ())" "(1, ())" T_int]
    Filter_keeps_or_drops [of "Some_Option (5::int)"
      "counting_arg (\<lambda>x s. (Returns (x = 6), s))" "(0, ())" "(1, ())" T_int]
    Filter_keeps_or_drops [of "None_Option T_int"
      "counting_arg (\<lambda>x s. (Returns (x = 6), s))" "(0, ())" "(0, ())" T_int]
  by (simp add: Option_IsSome_def Option_IsNone_def Some_Option_def None_Option_def
      counting_arg_def counting_def T_int_def)

subsection \<open>The failure normalizer\<close>

text \<open>
  C7. The normalizer returns an input that implements \<^verbatim>\<open>error\<close> as it is, so two
  normalized errors are equal exactly when the errors are; for any other input the
  description of the result is the input's default text (its \<^verbatim>\<open>Error()\<close> returns
  that text); for the string \<open>boom\<close> the description is \<open>boom\<close>.
\<close>

theorem covertError_identity_or_text:
  "covertError (ErrorAny e) = Some e \<and>
   ((covertError (ErrorAny e1) = covertError (ErrorAny e2)) = (e1 = e2)) \<and>
   ((\<forall>e'. d \<noteq> ErrorAny e') \<longrightarrow>
      map_option error_Error (covertError d) = Some (Returns (fmt_Sprintf_v d))) \<and>
   map_option error_Error (covertError (StringAny ''boom'')) = Some (Returns ''boom'')"
  by (cases d) (simp_all add: fmt_Errorf_v_def errors_New_def)

theorem covertError_identity_or_text_witness:
  "covertError (ErrorAny (NativeError ''*main.MyErr'' ''broken'')) =
     Some (NativeError ''*main.MyErr'' ''broken'') \<and>
   map_option error_Error (covertError (IntAny 1)) = Some (Returns ''1'') \<and>
   map_option error_Error (covertError (StringAny ''boom'')) = Some (Returns ''boom'')"
  using covertError_identity_or_text [of "NativeError ''*main.MyErr'' ''broken''"
      "ErrorString ''a''" "ErrorString ''a''" "IntAny 1"]
  by (simp add: fmt_Errorf_v_def errors_New_def show_int_def show_nat.simps digit_def)

text \<open>
  C9. Normalizing the nil interface gives a non-nil error whose description is the text
  \<open><nil>\<close>, so \<open>Error[T](nil)\<close> is in the failure state for every \<open>T\<close>, in both
  variants. The normalizer has no panicking step.
\<close>

theorem covertError_nil_descriptor:
  "covertError NilAny \<noteq> nil \<and>
   map_option error_Error (covertError NilAny) = Some (Returns ''<nil>'') \<and>
   Result_IsError (Error_Result T NilAny) = True \<and>
   result_IsError (Error_result T NilAny) = True"
  by (simp add: fmt_Errorf_v_def errors_New_def Result_IsError_def Error_Result_def
      result_IsError_def Error_result_def)

subsection \<open>Inspection\<close>

text \<open>
  C8. Inspect calls its callback with the held value when the Result is in the success
  state and not at all in the failure state; InspectError calls its callback with the
  descriptor in the failure state and not at all in the success state. When the callback
  returns, the method returns its receiver, so the state, the value and the descriptor
  read from the returned container are those of the receiver, and a second call is a
  call on the same container: it returns the receiver again and passes the same argument
  to the callback. The log of \<open>note_arg\<close> shows the arguments of the calls.
\<close>

theorem Inspect_frame:
  "(Result_IsOk r \<and> f (Result_Value r) s = (Returns (), s') \<longrightarrow>
      Result_Inspect r f s = (Returns r, s')) \<and>
   (Result_IsError r \<longrightarrow> Result_Inspect r f s = (Returns r, s)) \<and>
   (Result_IsError r \<and> g (Result_Error r) s = (Returns (), s') \<longrightarrow>
      Result_InspectError r g s = (Returns r, s')) \<and>
   (Result_IsOk r \<longrightarrow> Result_InspectError r g s = (Returns r, s)) \<and>
   Result_Inspect r note_arg log =
     (Returns r, if Result_IsOk r then log @ [Result_Value r] else log) \<and>
   Result_InspectError r note_arg elog =
     (Returns r, if Result_IsError r then elog @ [Result_Error r] else elog) \<and>
   Result_Inspect r note_arg (snd (Result_Inspect r note_arg log)) =
     (Returns r, if Result_IsOk r then log @ [Result_Value r, Result_Value r] else log) \<and>
   Result_InspectError r note_arg (snd (Result_InspectError r note_arg elog)) =
     (Returns r, if Result_IsError r then elog @ [Result_Error r, Result_Error r] else elog) \<and>
   (Result_Inspect r f s = (Returns r1, s1) \<longrightarrow>
      r1 = r \<and> Result_Inspect r1 f s1 = Result_Inspect r f s1) \<and>
   (Result_InspectError r g s = (Returns r2, s2) \<longrightarrow>
      r2 = r \<and> Result_InspectError r2 g s2 = Result_InspectError r g s2)"
  by (auto simp: Result_Inspect_def Result_InspectError_def Result_IsOk_def Result_IsError_def
      note_arg_def split: prod.splits outcome.splits if_splits)

theorem Inspect_frame_witness:
  "Result_Inspect (Ok_Result (42::int)) (counting_arg (\<lambda>v s. (Returns (), s))) (0, ()) =
     (Returns (Ok_Result 42), (1, ())) \<and>
   Result_Inspect (Ok_Result (42::int)) (counting_arg (\<lambda>v s. (Returns (), s))) (1, ()) =
     (Returns (Ok_Result 42), (2, ())) \<and>
   Result_InspectError (Ok_Result (42::int)) (counting_arg (\<lambda>v s. (Returns (), s))) (0, ()) =
     (Returns (Ok_Result 42), (0, ())) \<and>
   Result_Inspect (Ok_Result (42::int)) note_arg [] = (Returns (Ok_Result 42), [42]) \<and>
   Result_InspectError (Ok_Result (42::int)) note_arg [] = (Returns (Ok_Result 42), []) \<and>
   Result_Inspect (Error_Result T_int (StringAny ''error'')) note_arg [] =
     (Returns (Error_Result T_int (StringAny ''error'')), []) \<and>
   Result_InspectError (Error_Result T_int (StringAny ''error'')) note_arg [] =
     (Returns (Error_Result T_int (StringAny ''error'')), [Some (ErrorString ''error'')])"
  using Inspect_frame [where r = "Ok_Result (42::int)"
      and f = "counting_arg (\<lambda>v s. (Returns (), s))" and s = "(0, ())" and s' = "(1, ())"
      and g = "counting_arg (\<lambda>v s. (Returns (), s))" and log = "[]" and elog = "[]"
      and ?r1.0 = "Ok_Result (42::int)" and ?s1.0 = "(1, ())"
      and ?r2.0 = "Ok_Result (42::int)" and ?s2.0 = "(0, ())"]
    Inspect_frame [where r = "Ok_Result (42::int)"
      and f = "counting_arg (\<lambda>v s. (Returns (), s))" and s = "(1, ())" and s' = "(2, ())"
      and g = "counting_arg (\<lambda>v s. (Returns (), s))" and log = "[]" and elog = "[]"
      and ?r1.0 = "Ok_Result (42::int)" and ?s1.0 = "(2, ())"
      and ?r2.0 = "Ok_Result (42::int)" and ?s2.0 = "(1, ())"]
    Inspect_frame [where r = "Error_Result T_int (StringAny ''error'')"
      and f = "counting_arg (\<lambda>v s. (Returns (), s))" and s = "(0, ())" and s' = "(1, ())"
      and g = "counting_arg (\<lambda>v s. (Returns (), s))" and log = "[]" and elog = "[]"
      and ?r1.0 = "Error_Result T_int (StringAny ''error'')" and ?s1.0 = "(0, ())"
      and ?r2.0 = "Error_Result T_int (StringAny ''error'')" and ?s2.0 = "(1, ())"]
  by (simp add: Result_IsOk_def Result_IsError_def Ok_Result_def Error_Result_def
      counting_arg_def counting_def fmt_Errorf_v_def errors_New_def)

subsection \<open>The two variants\<close>

lemma to_variant_fields:
  "result_value (to_result r) = Result_Value r"
  "result_error (to_result r) = Result_Error r"
  "option_value (to_option opt) = Option_Value opt"
  "option_none (to_option opt) = Option_none opt"
  by (simp_all add: to_result_def to_option_def)

text \<open>Every interface-based container is the image of a struct-based one.\<close>

lemma to_variant_onto:
  "to_result \<lparr>Result_Value = result_value r', Result_Error = result_error r'\<rparr> = r'"
  "to_option \<lparr>Option_Value = option_value opt', Option_none = option_none opt'\<rparr> = opt'"
  by (simp_all add: to_result_def to_option_def)

lemma constructors_agree:
  "to_result (Ok_Result v) = Ok_result v"
  "to_result (Error_Result T d) = Error_result T d"
  "to_option (Some_Option v) = Some_option v"
  "to_option (None_Option T) = None_option T"
  by (simp_all add: to_result_def to_option_def Ok_Result_def Ok_result_def Error_Result_def
      Error_result_def Some_Option_def Some_option_def None_Option_def None_option_def)

lemma result_observers_agree:
  "result_Value (to_result r) = Result_Value r"
  "result_Error (to_result r) = Result_Error r"
  "result_IsOk (to_result r) = Result_IsOk r"
  "result_IsError (to_result r) = Result_IsError r"
  by (simp_all add: to_variant_fields result_Value_def result_Error_def result_IsOk_def
      Result_IsOk_def result_IsError_def Result_IsError_def)

lemma result_Except_agree:
  "result_Except (to_result r) msg = Result_Except r msg"
  "result_ExceptError T (to_result r) msg = Result_ExceptError T r msg"
  by (simp_all add: result_Except_def Result_Except_def result_ExceptError_def
      Result_ExceptError_def result_observers_agree to_variant_fields split: outcome.split)

lemma result_Unwrap_agree:
  "returned (result_Unwrap (to_result r)) = returned (Result_Unwrap r)"
  "returned (result_UnwrapError T (to_result r)) = returned (Result_UnwrapError T r)"
  by (simp_all add: result_Unwrap_def Result_Unwrap_def result_UnwrapError_def
      Result_UnwrapError_def result_Except_def Result_Except_def result_ExceptError_def
      Result_ExceptError_def result_observers_agree unwrapErrorFailed_def unwrapValueFailed_def
      to_variant_fields fmt_Errorf_s_s_def errors_New_def
      split: option.split outcome.split)

lemma result_Inspect_agree:
  "result_Inspect (to_result r) f s = call_to_result (Result_Inspect r f s)"
  "result_InspectError (to_result r) g s = call_to_result (Result_InspectError r g s)"
  by (simp_all add: result_Inspect_def Result_Inspect_def result_InspectError_def
      Result_InspectError_def result_observers_agree call_to_result_def
      to_variant_fields split: prod.split outcome.split)

lemma result_UnwrapOr_agree:
  "result_UnwrapOr (to_result r) dflt = Result_UnwrapOr r dflt"
  "result_UnwrapOrDefault T (to_result r) = Result_UnwrapOrDefault T r"
  "result_UnwrapOrElse (to_result r) h s = Result_UnwrapOrElse r h s"
  "result_Option T (to_result r) = to_option (Result_Option T r)"
  by (simp_all add: result_UnwrapOr_def Result_UnwrapOr_def result_UnwrapOrDefault_def
      Result_UnwrapOrDefault_def result_UnwrapOrElse_def Result_UnwrapOrElse_def
      result_Option_def Result_Option_def result_observers_agree constructors_agree
      to_variant_fields)

lemma option_observers_agree:
  "option_Value (to_option opt) = Option_Value opt"
  "option_IsSome (to_option opt) = Option_IsSome opt"
  "option_IsNone (to_option opt) = Option_IsNone opt"
  by (simp_all add: to_variant_fields option_Value_def option_IsSome_def Option_IsSome_def
      option_IsNone_def Option_IsNone_def)

lemma option_Unwrap_agree:
  "returned (option_Unwrap (to_option opt)) = returned (Option_Unwrap opt)"
  "option_UnwrapOr (to_option opt) dflt = Option_UnwrapOr opt dflt"
  "option_UnwrapOrDefault T (to_option opt) = Option_UnwrapOrDefault T opt"
  "option_UnwrapOrElse (to_option opt) h s = Option_UnwrapOrElse opt h s"
  by (simp_all add: option_Unwrap_def Option_Unwrap_def option_UnwrapOr_def Option_UnwrapOr_def
      option_UnwrapOrDefault_def Option_UnwrapOrDefault_def option_UnwrapOrElse_def
      Option_UnwrapOrElse_def option_observers_agree to_variant_fields option_Value_def
      None_option_def None_Option_def)

lemma option_calls_agree:
  "option_Inspect (to_option opt) f s = call_to_option (Option_Inspect opt f s)"
  "option_OkOr T (to_option opt) d = to_result (Option_OkOr T opt d)"
  "option_OkOrElse T (to_option opt) k s = call_to_result (Option_OkOrElse T opt k s)"
  "option_Filter T (to_option opt) p s = call_to_option (Option_Filter T opt p s)"
  by (simp_all add: option_Inspect_def Option_Inspect_def option_OkOr_def Option_OkOr_def
      option_OkOrElse_def Option_OkOrElse_def option_Filter_def Option_Filter_def
      option_observers_agree constructors_agree call_to_option_def call_to_result_def
      to_variant_fields split: prod.split outcome.split)

text \<open>
  The fixed messages of Unwrap differ between the variants, so the two panic with
  different values, under the same condition.
\<close>

lemma Unwrap_panic_values:
  "Result_Unwrap (Error_Result T_int (StringAny ''e'')) =
     Panics (ErrorAny (ErrorString ''called `Result.Unwrap()` on an `Error` value: e''))"
  "result_Unwrap (Error_result T_int (StringAny ''e'')) =
     Panics (ErrorAny (ErrorString ''called `result.Unwrap()` on an `error` value: e''))"
  by (simp_all add: Result_Unwrap_def Result_Except_def Result_IsError_def Error_Result_def
      result_Unwrap_def result_Except_def result_IsError_def Error_result_def
      unwrapErrorFailed_def fmt_Errorf_s_s_def fmt_Errorf_v_def errors_New_def)

text \<open>
  C10. The struct-based and the interface-based variants behave alike. Under the
  correspondence of containers with equal fields, which is onto and which the four
  constructors respect, every observer gives the same answer; every method that takes a
  callback returns the corresponding container or the same value, with the same panic
  and the same final state, so the callback is called alike; Except and ExceptError
  return or panic with the same values; and Unwrap and UnwrapError return the same value
  or both panic.
\<close>

theorem variants_agree:
  "to_result (Ok_Result v) = Ok_result v \<and>
   to_result (Error_Result T d) = Error_result T d \<and>
   to_option (Some_Option v) = Some_option v \<and>
   to_option (None_Option T) = None_option T \<and>
   to_result \<lparr>Result_Value = result_value r', Result_Error = result_error r'\<rparr> = r' \<and>
   to_option \<lparr>Option_Value = option_value opt', Option_none = option_none opt'\<rparr> = opt' \<and>
   result_Value (to_result r) = Result_Value r \<and>
   result_Error (to_result r) = Result_Error r \<and>
   result_IsOk (to_result r) = Result_IsOk r \<and>
   result_IsError (to_result r) = Result_IsError r \<and>
   result_Except (to_result r) msg = Result_Except r msg \<and>
   result_ExceptError T (to_result r) msg = Result_ExceptError T r msg \<and>
   result_Inspect (to_result r) f s = call_to_result (Result_Inspect r f s) \<and>
   result_InspectError (to_result r) g s = call_to_result (Result_InspectError r g s) \<and>
   returned (result_Unwrap (to_result r)) = returned (Result_Unwrap r) \<and>
   returned (result_UnwrapError T (to_result r)) = returned (Result_UnwrapError T r) \<and>
   result_UnwrapOr (to_result r) dflt = Result_UnwrapOr r dflt \<and>
   result_UnwrapOrDefault T (to_result r) = Result_UnwrapOrDefault T r \<and>
   result_UnwrapOrElse (to_result r) h s = Result_UnwrapOrElse r h s \<and>
   result_Option T (to_result r) = to_option (Result_Option T r) \<and>
   option_Value (to_option opt) = Option_Value opt \<and>
   option_IsSome (to_option opt) = Option_IsSome opt \<and>
   option_IsNone (to_option opt) = Option_IsNone opt \<and>
   returned (option_Unwrap (to_option opt)) = returned (Option_Unwrap opt) \<and>
   option_UnwrapOr (to_option opt) dflt = Option_UnwrapOr opt dflt \<and>
   option_UnwrapOrDefault T (to_option opt) = Option_UnwrapOrDefault T opt \<and>
   option_UnwrapOrElse (to_option opt) h s = Option_UnwrapOrElse opt h s \<and>
   option_Inspect (to_option opt) f s = call_to_option (Option_Inspect opt f s) \<and>
   option_OkOr T (to_option opt) d = to_result (Option_OkOr T opt d) \<and>
   option_OkOrElse T (to_option opt) k s = call_to_result (Option_OkOrElse T opt k s) \<and>
   option_Filter T (to_option opt) p s = call_to_option (Option_Filter T opt p s)"
  by (simp only: constructors_agree to_variant_onto result_observers_agree
      result_Except_agree result_Unwrap_agree result_Inspect_agree result_UnwrapOr_agree
      option_observers_agree option_Unwrap_agree option_calls_agree simp_thms)

end
